theory Spec2Isabelle
  imports Complex_Main "HOL-Library.Word"
begin

section \<open>The WebUSB connection of src/device/microbit.ts\<close>

text \<open>
  A shallow embedding of \<^verbatim>\<open>MicrobitWebUSBConnection\<close> and of the two module-level
  functions \<^verbatim>\<open>withEnrichedErrors\<close> and \<^verbatim>\<open>enrichedError\<close>.

  \<^item> The instance is a record, returned updated by every method.
  \<^item> A rejected promise or a \<^verbatim>\<open>throw\<close> is the \<open>Inl\<close> branch of a sum.
  \<^item> The collaborators the file imports but does not define (the host's
    \<^verbatim>\<open>navigator.usb\<close>, the \<^verbatim>\<open>PartialFlashing\<close> driver, \<^verbatim>\<open>BoardId.parse\<close>) are the
    fields of a \<open>host\<close> record: arbitrary functions over an abstract driver state.
  \<^item> Every call that crosses the boundary of the class (a driver call, a call of the
    data source, a call of the progress callback, an \<^verbatim>\<open>emit\<close>) is appended to a trace
    kept in the instance, so that the order of the calls can be stated.
  \<^item> An \<^verbatim>\<open>async\<close> method is run to completion: the interleaving of two methods at an
    \<^verbatim>\<open>await\<close> is not modelled, and a connect started in the background is modelled at
    the place where it is started.
  \<^item> \<^verbatim>\<open>dispose\<close> only removes listeners and is left out; the two handlers are modelled
    as functions of the event, whoever calls them.
\<close>

subsection \<open>Enumerations\<close>

datatype ConnectionErrorType = UNABLE_TO_CLAIM_INTERFACE | UNKNOWN

datatype ConnectionStatus = NOT_SUPPORTED | NO_AUTHORIZED_DEVICE | NOT_CONNECTED | CONNECTED

datatype ConnectionMode = INTERACTIVE | NON_INTERACTIVE

subsection \<open>Devices and filters\<close>

text \<open>
  \<^verbatim>\<open>USBDeviceFilter\<close>: both fields the matcher reads are optional; an absent field is
  \<open>None\<close> (\<^verbatim>\<open>typeof filter.productId === "undefined"\<close>).
  \<^verbatim>\<open>USBDevice\<close>: \<open>ref\<close> stands for the identity of the object, which is what
  \<^verbatim>\<open>===\<close> compares in \<^verbatim>\<open>handleDisconnect\<close>; \<open>device_vendorId\<close> and
  \<open>device_productId\<close> are its \<^verbatim>\<open>vendorId\<close> and \<^verbatim>\<open>productId\<close> (two records cannot
  share a field name).
\<close>

record USBDeviceFilter =
  vendorId :: "nat option"
  productId :: "nat option"

record USBDevice =
  ref :: nat
  device_vendorId :: nat
  device_productId :: nat

record MicrobitConnectionOptions =
  autoConnect :: bool
  deviceFilters :: "USBDeviceFilter list"

text \<open>The defaults of the constructor: \<^verbatim>\<open>0x0d28\<close> and \<^verbatim>\<open>0x0204\<close>.\<close>

definition default_options :: MicrobitConnectionOptions where
  "default_options =
     \<lparr>autoConnect = True,
      deviceFilters = [\<lparr>vendorId = Some 0x0d28, productId = Some 0x0204\<rparr>]\<rparr>"

text \<open>\<^verbatim>\<open>matchesDeviceFilter\<close>: \<^verbatim>\<open>Array.prototype.some\<close> is \<open>list_ex\<close>.\<close>

definition matchesDeviceFilter :: "MicrobitConnectionOptions \<Rightarrow> USBDevice \<Rightarrow> bool" where
  "matchesDeviceFilter opts device =
     list_ex
       (\<lambda>filter.
          (productId filter = None \<or> productId filter = Some (device_productId device)) \<and>
          (vendorId filter = None \<or> vendorId filter = Some (device_vendorId device)))
       (deviceFilters opts)"

subsection \<open>Thrown values and the error classifier\<close>

text \<open>
  An \<^verbatim>\<open>Error\<close> object: its \<^verbatim>\<open>message\<close> and the \<^verbatim>\<open>type\<close> property that
  \<^verbatim>\<open>enrichedError\<close> assigns (\<open>None\<close> while the property is \<^verbatim>\<open>undefined\<close>).
  A thrown value is an \<^verbatim>\<open>Error\<close> or something else (\<^verbatim>\<open>e: any\<close>); of a value that
  is not an \<^verbatim>\<open>Error\<close> the model keeps the message that \<^verbatim>\<open>new Error(e)\<close> gives it.
\<close>

record js_error =
  message :: string
  type :: "ConnectionErrorType option"

datatype js_value = Error_object js_error | Not_an_Error string

text \<open>\<^verbatim>\<open>new Error(m)\<close>: the message is the empty string when \<^verbatim>\<open>m\<close> is \<^verbatim>\<open>undefined\<close>.\<close>

definition new_Error :: "string option \<Rightarrow> js_error" where
  "new_Error m = \<lparr>message = (case m of None \<Rightarrow> [] | Some s \<Rightarrow> s), type = None\<rparr>"

text \<open>
  \<^verbatim>\<open>specialCases\<close> is an object literal, and \<^verbatim>\<open>specialCases[e.message]\<close> is a property
  read: it finds the literal's own key, and otherwise whatever the prototype of every
  object literal, \<^verbatim>\<open>Object.prototype\<close>, has under that name. Those members are
  functions (and \<^verbatim>\<open>Object.prototype\<close> itself, for \<^verbatim>\<open>__proto__\<close>): all truthy, none with
  a \<^verbatim>\<open>message\<close> or a \<^verbatim>\<open>type\<close> property.
\<close>

record special_case =
  special_type :: ConnectionErrorType
  special_message :: string

datatype property_read = Own special_case | Inherited | Undefined

definition Object_prototype_names :: "string list" where
  "Object_prototype_names =
     [''constructor'', ''hasOwnProperty'', ''isPrototypeOf'', ''propertyIsEnumerable'',
      ''toLocaleString'', ''toString'', ''valueOf'', ''__proto__'',
      ''__defineGetter__'', ''__defineSetter__'', ''__lookupGetter__'', ''__lookupSetter__'']"

definition specialCases :: "string \<Rightarrow> property_read" where
  "specialCases key =
     (if key = ''Unable to claim interface.'' then
        Own \<lparr>special_type = UNABLE_TO_CLAIM_INTERFACE,
             special_message =
               ''Cannot connect. Check no other browser tabs or windows are using the micro:bit.''\<rparr>
      else if key \<in> set Object_prototype_names then Inherited
      else Undefined)"

definition enrichedError :: "js_value \<Rightarrow> js_error" where
  "enrichedError e0 =
     (let e = (case e0 of Error_object err \<Rightarrow> err | Not_an_Error s \<Rightarrow> new_Error (Some s))
      in case specialCases (message e) of
           Own special \<Rightarrow> (new_Error (Some (special_message special)))\<lparr>type := Some (special_type special)\<rparr>
         | Inherited \<Rightarrow> (new_Error None)\<lparr>type := None\<rparr>
         | Undefined \<Rightarrow> e\<lparr>type := Some UNKNOWN\<rparr>)"

definition Unsupported_error :: js_value where
  "Unsupported_error = Error_object (new_Error (Some ''Unsupported. Check connection status first.''))"

subsection \<open>The instance, its collaborators and the trace\<close>

text \<open>
  \<^verbatim>\<open>FlashData\<close>, what the data source returns: \<^verbatim>\<open>data.bytes\<close> (a \<^verbatim>\<open>Uint8Array\<close>) and
  \<^verbatim>\<open>data.intelHex\<close>.
\<close>

record FlashData =
  bytes :: "8 word list"
  intelHex :: string

record flash_options =
  partial :: bool

record USBConnectionEvent =
  device :: USBDevice

text \<open>
  The events this file emits. (\<^verbatim>\<open>EVENT_SERIAL_DATA\<close> and \<^verbatim>\<open>EVENT_PROGRESS\<close> are
  declared and never emitted here.)
\<close>

datatype event =
    EVENT_STATUS ConnectionStatus
  | EVENT_AUTOCONNECT_ERROR js_value
  | EVENT_SERIAL_ERROR js_value

text \<open>
  One entry of the trace per call that leaves the class. \<open>Progress p\<close> is a call of the
  local \<^verbatim>\<open>progress\<close> of \<^verbatim>\<open>flash\<close>, which is \<^verbatim>\<open>options.progress\<close> or, when the caller
  gave none, the no-op; \<open>None\<close> is \<^verbatim>\<open>undefined\<close>. \<open>'b\<close> is the type of a parsed board id.
\<close>

datatype 'b action =
    Get_devices
  | Disconnect_dap
  | Connect_dap
  | Parse_board_id string
  | Data_source 'b
  | Flash_partial "8 word list" string
  | Flash_full string
  | Progress "real option"
  | Emit event

text \<open>
  The collaborators. \<open>'d\<close> is the state of the \<^verbatim>\<open>PartialFlashing\<close> object; a driver call
  returns its outcome and the new state, and a flash call also the percentages it
  passed to the progress callback, in order.
  \<^item> \<open>usb\<close>: \<^verbatim>\<open>navigator.usb\<close> is truthy.
  \<^item> \<open>dapwrapper_boardId\<close>: the read \<^verbatim>\<open>this.connection.dapwrapper.boardId\<close>, which
    throws when there is no \<^verbatim>\<open>dapwrapper\<close>.
  \<^item> \<open>dapwrapper_device\<close>: \<^verbatim>\<open>this.connection.dapwrapper?.daplink?.device\<close>.
\<close>

record ('d, 'b) host =
  usb :: bool
  getDevices :: "js_value + USBDevice list"
  disconnectDapAsync :: "'d \<Rightarrow> (js_value + unit) \<times> 'd"
  connectDapAsync :: "'d \<Rightarrow> (js_value + unit) \<times> 'd"
  dapwrapper_boardId :: "'d \<Rightarrow> js_value + string"
  dapwrapper_device :: "'d \<Rightarrow> USBDevice option"
  BoardId_parse :: "string \<Rightarrow> js_value + 'b"
  flashAsync :: "8 word list \<Rightarrow> string \<Rightarrow> 'd \<Rightarrow> (js_value + unit) \<times> real list \<times> 'd"
  fullFlashAsync :: "string \<Rightarrow> 'd \<Rightarrow> (js_value + unit) \<times> real list \<times> 'd"

record ('d, 'b) MicrobitWebUSBConnection =
  status :: ConnectionStatus
  connection :: 'd
  options :: MicrobitConnectionOptions
  trace :: "'b action list"

text \<open>A method: from the instance to what it returns or throws, and the instance after.\<close>

type_synonym ('d, 'b, 'a) operation =
  "('d, 'b) MicrobitWebUSBConnection \<Rightarrow> (js_value + 'a) \<times> ('d, 'b) MicrobitWebUSBConnection"

text \<open>
  The field initialisers and the constructor. \<open>d0\<close> is \<^verbatim>\<open>new PartialFlashing()\<close>; the two
  options are \<open>None\<close> where the caller's \<^verbatim>\<open>Partial<MicrobitConnectionOptions>\<close> has no
  such key.
\<close>

definition constructor ::
  "('d, 'b) host \<Rightarrow> 'd \<Rightarrow> bool option \<Rightarrow> USBDeviceFilter list option \<Rightarrow>
   ('d, 'b) MicrobitWebUSBConnection" where
  "constructor h d0 auto filters =
     \<lparr>status = (if usb h then NO_AUTHORIZED_DEVICE else NOT_SUPPORTED),
      connection = d0,
      options =
        \<lparr>autoConnect = (case auto of None \<Rightarrow> autoConnect default_options | Some a \<Rightarrow> a),
         deviceFilters = (case filters of None \<Rightarrow> deviceFilters default_options | Some fs \<Rightarrow> fs)\<rparr>,
      trace = []\<rparr>"

definition record_action ::
  "'b action \<Rightarrow> ('d, 'b) MicrobitWebUSBConnection \<Rightarrow> ('d, 'b) MicrobitWebUSBConnection" where
  "record_action a c = c\<lparr>trace := trace c @ [a]\<rparr>"

text \<open>\<^verbatim>\<open>await m; f\<close>: a rejection of \<open>m\<close> ends the method, its value goes on to \<open>f\<close>.\<close>

definition andThen :: "('d, 'b, 'a) operation \<Rightarrow> ('a \<Rightarrow> ('d, 'b, 'c) operation) \<Rightarrow> ('d, 'b, 'c) operation" where
  "andThen m f c = (case m c of (Inl e, c') \<Rightarrow> (Inl e, c') | (Inr v, c') \<Rightarrow> f v c')"

definition return :: "'a \<Rightarrow> ('d, 'b, 'a) operation" where
  "return v c = (Inr v, c)"

text \<open>\<^verbatim>\<open>withEnrichedErrors\<close>: \<^verbatim>\<open>try { return await f(); } catch (e) { throw enrichedError(e); }\<close>\<close>

definition withEnrichedErrors :: "('d, 'b, 'a) operation \<Rightarrow> ('d, 'b, 'a) operation" where
  "withEnrichedErrors f c =
     (case f c of
        (Inl e, c') \<Rightarrow> (Inl (Error_object (enrichedError e)), c')
      | (Inr v, c') \<Rightarrow> (Inr v, c'))"

text \<open>\<^verbatim>\<open>m.catch(handler)\<close> on a promise nobody awaits: the state after, nothing thrown.\<close>

definition catch ::
  "('d, 'b, 'a) operation \<Rightarrow>
   (js_value \<Rightarrow> ('d, 'b) MicrobitWebUSBConnection \<Rightarrow> ('d, 'b) MicrobitWebUSBConnection) \<Rightarrow>
   ('d, 'b) MicrobitWebUSBConnection \<Rightarrow> ('d, 'b) MicrobitWebUSBConnection" where
  "catch m handler c = (case m c of (Inl e, c') \<Rightarrow> handler e c' | (Inr v, c') \<Rightarrow> c')"

subsection \<open>Calls of the collaborators, logged\<close>

definition connection_disconnectDapAsync :: "('d, 'b) host \<Rightarrow> ('d, 'b, unit) operation" where
  "connection_disconnectDapAsync h c =
     (case disconnectDapAsync h (connection c) of
        (r, d) \<Rightarrow> (r, record_action Disconnect_dap (c\<lparr>connection := d\<rparr>)))"

definition connection_connectDapAsync :: "('d, 'b) host \<Rightarrow> ('d, 'b, unit) operation" where
  "connection_connectDapAsync h c =
     (case connectDapAsync h (connection c) of
        (r, d) \<Rightarrow> (r, record_action Connect_dap (c\<lparr>connection := d\<rparr>)))"

definition connection_dapwrapper_boardId :: "('d, 'b) host \<Rightarrow> ('d, 'b, string) operation" where
  "connection_dapwrapper_boardId h c = (dapwrapper_boardId h (connection c), c)"

definition BoardId_parse_call :: "('d, 'b) host \<Rightarrow> string \<Rightarrow> ('d, 'b, 'b) operation" where
  "BoardId_parse_call h raw c = (BoardId_parse h raw, record_action (Parse_board_id raw) c)"

definition dataSource_call :: "('b \<Rightarrow> js_value + FlashData) \<Rightarrow> 'b \<Rightarrow> ('d, 'b, FlashData) operation" where
  "dataSource_call dataSource boardId c = (dataSource boardId, record_action (Data_source boardId) c)"

definition progress :: "real option \<Rightarrow> ('d, 'b, unit) operation" where
  "progress percentage c = (Inr (), record_action (Progress percentage) c)"

definition driver_progress ::
  "real list \<Rightarrow> ('d, 'b) MicrobitWebUSBConnection \<Rightarrow> ('d, 'b) MicrobitWebUSBConnection" where
  "driver_progress ps c = c\<lparr>trace := trace c @ map (\<lambda>p. Progress (Some p)) ps\<rparr>"

definition connection_flashAsync ::
  "('d, 'b) host \<Rightarrow> 8 word list \<Rightarrow> string \<Rightarrow> ('d, 'b, unit) operation" where
  "connection_flashAsync h bs hex c =
     (case flashAsync h bs hex (connection c) of
        (r, ps, d) \<Rightarrow> (r, driver_progress ps (record_action (Flash_partial bs hex) (c\<lparr>connection := d\<rparr>))))"

definition connection_fullFlashAsync :: "('d, 'b) host \<Rightarrow> string \<Rightarrow> ('d, 'b, unit) operation" where
  "connection_fullFlashAsync h hex c =
     (case fullFlashAsync h hex (connection c) of
        (r, ps, d) \<Rightarrow> (r, driver_progress ps (record_action (Flash_full hex) (c\<lparr>connection := d\<rparr>))))"

subsection \<open>The methods\<close>

definition setStatus ::
  "ConnectionStatus \<Rightarrow> ('d, 'b) MicrobitWebUSBConnection \<Rightarrow> ('d, 'b) MicrobitWebUSBConnection" where
  "setStatus newStatus c = (let c' = c\<lparr>status := newStatus\<rparr> in record_action (Emit (EVENT_STATUS (status c'))) c')"

definition emit ::
  "event \<Rightarrow> ('d, 'b) MicrobitWebUSBConnection \<Rightarrow> ('d, 'b) MicrobitWebUSBConnection" where
  "emit ev c = record_action (Emit ev) c"

definition assertSupported :: "('d, 'b) host \<Rightarrow> ('d, 'b, unit) operation" where
  "assertSupported h c = (if \<not> usb h then (Inl Unsupported_error, c) else (Inr (), c))"

text \<open>\<^verbatim>\<open>connectInternal\<close> takes the mode and never reads it.\<close>

definition connectInternal :: "('d, 'b) host \<Rightarrow> ConnectionMode \<Rightarrow> ('d, 'b, ConnectionStatus) operation" where
  "connectInternal h mode =
     andThen (assertSupported h) (\<lambda>_.
     andThen (connection_connectDapAsync h) (\<lambda>_.
     return CONNECTED))"

definition connect :: "('d, 'b) host \<Rightarrow> ConnectionMode \<Rightarrow> ('d, 'b, ConnectionStatus) operation" where
  "connect h mode =
     withEnrichedErrors
       (andThen (connectInternal h mode) (\<lambda>newStatus c.
          let c' = setStatus newStatus c in (Inr (status c'), c')))"

text \<open>
  \<^verbatim>\<open>flash\<close>: the six statements of its body, each \<^verbatim>\<open>await\<close> an \<open>andThen\<close>. There is no
  \<^verbatim>\<open>withEnrichedErrors\<close> around them and no \<^verbatim>\<open>setStatus\<close> among them. The local
  \<^verbatim>\<open>progress\<close> is handed to the driver and called once more at the end.
\<close>

definition flash ::
  "('d, 'b) host \<Rightarrow> ('b \<Rightarrow> js_value + FlashData) \<Rightarrow> flash_options \<Rightarrow> ('d, 'b, unit) operation" where
  "flash h dataSource opts =
     andThen (connection_disconnectDapAsync h) (\<lambda>_.
     andThen (connection_connectDapAsync h) (\<lambda>_.
     andThen (connection_dapwrapper_boardId h) (\<lambda>raw.
     andThen (BoardId_parse_call h raw) (\<lambda>boardId.
     andThen (dataSource_call dataSource boardId) (\<lambda>data.
     andThen (if partial opts
              then connection_flashAsync h (bytes data) (intelHex data)
              else connection_fullFlashAsync h (intelHex data)) (\<lambda>_.
     progress None))))))"

definition disconnect :: "('d, 'b) host \<Rightarrow> ('d, 'b, unit) operation" where
  "disconnect h =
     withEnrichedErrors
       (andThen (connection_disconnectDapAsync h) (\<lambda>_ c.
          (Inr (), setStatus NOT_CONNECTED c)))"

definition getPairedDevice :: "('d, 'b) host \<Rightarrow> ('d, 'b, USBDevice option) operation" where
  "getPairedDevice h c =
     (if \<not> usb h then (Inr None, c)
      else case getDevices h of
             Inl e \<Rightarrow> (Inl e, record_action Get_devices c)
           | Inr ds \<Rightarrow>
               (let devices = filter (matchesDeviceFilter (options c)) ds
                in (Inr (if length devices = 1 then Some (hd devices) else None),
                    record_action Get_devices c)))"

definition initialize :: "('d, 'b) host \<Rightarrow> ('d, 'b, unit) operation" where
  "initialize h =
     andThen (getPairedDevice h) (\<lambda>paired c.
       case paired of
         None \<Rightarrow> (Inr (), c)
       | Some _ \<Rightarrow>
           (let c1 = setStatus NOT_CONNECTED c
            in if autoConnect (options c1)
               then (Inr (), catch (connect h NON_INTERACTIVE)
                               (\<lambda>e. emit (EVENT_AUTOCONNECT_ERROR e)) c1)
               else (Inr (), c1)))"

definition handleConnect ::
  "('d, 'b) host \<Rightarrow> USBConnectionEvent \<Rightarrow>
   ('d, 'b) MicrobitWebUSBConnection \<Rightarrow> ('d, 'b) MicrobitWebUSBConnection" where
  "handleConnect h ev c =
     (if matchesDeviceFilter (options c) (device ev) then
        if status c = NO_AUTHORIZED_DEVICE then
          (let c1 = setStatus NOT_CONNECTED c
           in if autoConnect (options c1)
              then catch (connect h NON_INTERACTIVE) (\<lambda>e. emit (EVENT_SERIAL_ERROR e)) c1
              else c1)
        else c
      else c)"

definition handleDisconnect ::
  "('d, 'b) host \<Rightarrow> USBConnectionEvent \<Rightarrow>
   ('d, 'b) MicrobitWebUSBConnection \<Rightarrow> ('d, 'b) MicrobitWebUSBConnection" where
  "handleDisconnect h ev c =
     (if Some (ref (device ev)) = map_option ref (dapwrapper_device h (connection c))
      then setStatus NO_AUTHORIZED_DEVICE c
      else c)"

text \<open>The status events of a trace, in order.\<close>

fun status_events :: "'b action list \<Rightarrow> ConnectionStatus list" where
  "status_events [] = []"
| "status_events (Emit (EVENT_STATUS s) # as) = s # status_events as"
| "status_events (a # as) = status_events as"

subsection \<open>Concrete hosts\<close>

text \<open>
  Hosts on which the methods are evaluated below. The driver state is one boolean, "a
  debug session is open"; a parsed board id is the raw string.
  \<^item> \<open>example_host\<close>: USB is there and every call succeeds.
  \<^item> \<open>claim_host\<close>: another tab holds the device, so \<^verbatim>\<open>connectDapAsync\<close> rejects with
    the message \<^verbatim>\<open>enrichedError\<close> knows.
  \<^item> \<open>teardown_fails_host\<close>: \<^verbatim>\<open>disconnectDapAsync\<close> rejects.
  \<^item> \<open>no_usb_host\<close>: \<^verbatim>\<open>navigator.usb\<close> is undefined; the driver, which has no
    session to close, resolves \<^verbatim>\<open>disconnectDapAsync\<close>.
\<close>

definition claim_error :: js_value where
  "claim_error = Error_object (new_Error (Some ''Unable to claim interface.''))"

definition teardown_error :: js_value where
  "teardown_error = Error_object (new_Error (Some ''A transfer error has occurred.''))"

definition example_device :: USBDevice where
  "example_device = \<lparr>ref = 1, device_vendorId = 0x0d28, device_productId = 0x0204\<rparr>"

definition example_host :: "(bool, string) host" where
  "example_host =
     \<lparr>usb = True,
      getDevices = Inr [example_device],
      disconnectDapAsync = (\<lambda>d. (Inr (), False)),
      connectDapAsync = (\<lambda>d. (Inr (), True)),
      dapwrapper_boardId =
        (\<lambda>d. if d then Inr ''9901''
             else Inl (Error_object (new_Error (Some ''Cannot read properties of undefined'')))),
      dapwrapper_device = (\<lambda>d. if d then Some example_device else None),
      BoardId_parse = (\<lambda>raw. Inr raw),
      flashAsync = (\<lambda>bs hex d. (Inr (), [0, 1 / 2, 1], d)),
      fullFlashAsync = (\<lambda>hex d. (Inr (), [1], d))\<rparr>"

definition claim_host :: "(bool, string) host" where
  "claim_host = example_host\<lparr>connectDapAsync := (\<lambda>d. (Inl claim_error, d))\<rparr>"

definition teardown_fails_host :: "(bool, string) host" where
  "teardown_fails_host = example_host\<lparr>disconnectDapAsync := (\<lambda>d. (Inl teardown_error, d))\<rparr>"

definition no_usb_host :: "(bool, string) host" where
  "no_usb_host = example_host\<lparr>usb := False\<rparr>"

definition example_dataSource :: "string \<Rightarrow> js_value + FlashData" where
  "example_dataSource boardId = Inr \<lparr>bytes = [1, 2, 3], intelHex = '':00000001FF''\<rparr>"

definition other_dataSource :: "string \<Rightarrow> js_value + FlashData" where
  "other_dataSource boardId = Inr \<lparr>bytes = [9], intelHex = '':00000001FF''\<rparr>"

text \<open>
  \<open>fresh_instance h\<close> is \<^verbatim>\<open>new MicrobitWebUSBConnection()\<close> on the host \<open>h\<close>,
  \<open>connected_instance h\<close> the same instance after \<^verbatim>\<open>connect(ConnectionMode.INTERACTIVE)\<close>,
  \<open>example_flashed\<close> the fresh instance of \<open>example_host\<close> after a partial flash, and
  \<open>example_full_flashed\<close> the same after a full flash.
\<close>

definition fresh_instance :: "(bool, string) host \<Rightarrow> (bool, string) MicrobitWebUSBConnection" where
  "fresh_instance h = constructor h False None None"

definition connected_instance :: "(bool, string) host \<Rightarrow> (bool, string) MicrobitWebUSBConnection" where
  "connected_instance h = snd (connect h INTERACTIVE (fresh_instance h))"

definition example_flashed :: "(bool, string) MicrobitWebUSBConnection" where
  "example_flashed =
     (fresh_instance example_host)
       \<lparr>connection := True,
        trace := [Disconnect_dap, Connect_dap, Parse_board_id ''9901'', Data_source ''9901'',
                  Flash_partial [1, 2, 3] '':00000001FF'',
                  Progress (Some 0), Progress (Some (1 / 2)), Progress (Some 1), Progress None]\<rparr>"

definition example_full_flashed :: "(bool, string) MicrobitWebUSBConnection" where
  "example_full_flashed =
     (fresh_instance example_host)
       \<lparr>connection := True,
        trace := [Disconnect_dap, Connect_dap, Parse_board_id ''9901'', Data_source ''9901'',
                  Flash_full '':00000001FF'', Progress (Some 1), Progress None]\<rparr>"

section \<open>Unfolding rules and facts about traces\<close>

lemmas flash_defs =
  flash_def andThen_def connection_disconnectDapAsync_def connection_connectDapAsync_def
  connection_dapwrapper_boardId_def BoardId_parse_call_def dataSource_call_def progress_def
  connection_flashAsync_def connection_fullFlashAsync_def driver_progress_def record_action_def

lemmas connect_defs =
  connect_def connectInternal_def assertSupported_def withEnrichedErrors_def disconnect_def
  andThen_def return_def connection_connectDapAsync_def connection_disconnectDapAsync_def
  setStatus_def record_action_def Unsupported_error_def

lemmas enrichedError_defs =
  enrichedError_def specialCases_def Object_prototype_names_def new_Error_def

lemmas example_defs =
  example_host_def claim_host_def teardown_fails_host_def no_usb_host_def example_device_def
  example_dataSource_def other_dataSource_def claim_error_def teardown_error_def
  fresh_instance_def connected_instance_def constructor_def default_options_def

lemma status_events_append: "status_events (xs @ ys) = status_events xs @ status_events ys"
  by (induction xs rule: status_events.induct) simp_all

lemma status_events_driver_progress: "status_events (map (\<lambda>p. Progress (Some p)) ps) = []"
  by (induction ps) simp_all

section \<open>Device matcher\<close>

text \<open>
  Claim C6. For every device D and every list of filters F, the matcher returns true if
  and only if some filter f of F has (f.vendorId unset or equal to D.vendorId) and
  (f.productId unset or equal to D.productId). The matcher is a function of the options
  and the device alone: it reads no other state and returns nothing but the boolean.
\<close>

theorem matchesDeviceFilter_iff:
  "matchesDeviceFilter opts D \<longleftrightarrow>
     (\<exists>f \<in> set (deviceFilters opts).
        (vendorId f = None \<or> vendorId f = Some (device_vendorId D)) \<and>
        (productId f = None \<or> productId f = Some (device_productId D)))"
  unfolding matchesDeviceFilter_def list_ex_iff by blast

section \<open>Flash orchestrator\<close>

text \<open>
  Claim C1. Every call of \<^verbatim>\<open>flash(dataSource, {partial, progress})\<close> that returns
  normally has made exactly these calls, in this order: the teardown of the debug
  session, the set-up of a fresh one, the parse of the board id read from the driver
  after that set-up, \<^verbatim>\<open>dataSource(boardId)\<close>, the partial flash with the payload's
  bytes and Intel HEX when \<open>partial\<close> is set and otherwise the full flash with the Intel
  HEX alone, the progress calls the driver makes, and last one call of the progress
  callback with \<^verbatim>\<open>undefined\<close>. Each of the first five calls succeeded, and nothing else
  was added to the trace.
\<close>

theorem flash_success_sequence:
  assumes "flash h dataSource opts c = (Inr u, c')"
  shows "\<exists>d1 d2 raw boardId data ps d3.
           disconnectDapAsync h (connection c) = (Inr (), d1) \<and>
           connectDapAsync h d1 = (Inr (), d2) \<and>
           dapwrapper_boardId h d2 = Inr raw \<and>
           BoardId_parse h raw = Inr boardId \<and>
           dataSource boardId = Inr data \<and>
           (if partial opts then flashAsync h (bytes data) (intelHex data) d2
            else fullFlashAsync h (intelHex data) d2) = (Inr (), ps, d3) \<and>
           connection c' = d3 \<and>
           trace c' =
             trace c @
             [Disconnect_dap, Connect_dap, Parse_board_id raw, Data_source boardId,
              if partial opts then Flash_partial (bytes data) (intelHex data)
              else Flash_full (intelHex data)] @
             map (\<lambda>p. Progress (Some p)) ps @ [Progress None]"
  using assms
  by (auto simp: flash_defs split: prod.splits sum.splits if_splits)

text \<open>
  The theorem on \<open>example_host\<close>, at a partial flash and at a full flash: each call returns
  normally, and its trace is the one the theorem gives, with the partial-flash call on the
  bytes and the Intel HEX in the first and the full-flash call on the Intel HEX alone in
  the second.
\<close>

theorem flash_success_sequence_witness:
  "flash example_host example_dataSource \<lparr>partial = True\<rparr> (fresh_instance example_host) =
     (Inr (), example_flashed) \<and>
   (\<exists>d1 d2 raw boardId data ps d3.
      disconnectDapAsync example_host (connection (fresh_instance example_host)) = (Inr (), d1) \<and>
      connectDapAsync example_host d1 = (Inr (), d2) \<and>
      dapwrapper_boardId example_host d2 = Inr raw \<and>
      BoardId_parse example_host raw = Inr boardId \<and>
      example_dataSource boardId = Inr data \<and>
      (if partial \<lparr>partial = True\<rparr> then flashAsync example_host (bytes data) (intelHex data) d2
       else fullFlashAsync example_host (intelHex data) d2) = (Inr (), ps, d3) \<and>
      connection example_flashed = d3 \<and>
      trace example_flashed =
        trace (fresh_instance example_host) @
        [Disconnect_dap, Connect_dap, Parse_board_id raw, Data_source boardId,
         if partial \<lparr>partial = True\<rparr> then Flash_partial (bytes data) (intelHex data)
         else Flash_full (intelHex data)] @
        map (\<lambda>p. Progress (Some p)) ps @ [Progress None]) \<and>
   flash example_host example_dataSource \<lparr>partial = False\<rparr> (fresh_instance example_host) =
     (Inr (), example_full_flashed) \<and>
   (\<exists>d1 d2 raw boardId data ps d3.
      disconnectDapAsync example_host (connection (fresh_instance example_host)) = (Inr (), d1) \<and>
      connectDapAsync example_host d1 = (Inr (), d2) \<and>
      dapwrapper_boardId example_host d2 = Inr raw \<and>
      BoardId_parse example_host raw = Inr boardId \<and>
      example_dataSource boardId = Inr data \<and>
      (if partial \<lparr>partial = False\<rparr> then flashAsync example_host (bytes data) (intelHex data) d2
       else fullFlashAsync example_host (intelHex data) d2) = (Inr (), ps, d3) \<and>
      connection example_full_flashed = d3 \<and>
      trace example_full_flashed =
        trace (fresh_instance example_host) @
        [Disconnect_dap, Connect_dap, Parse_board_id raw, Data_source boardId,
         if partial \<lparr>partial = False\<rparr> then Flash_partial (bytes data) (intelHex data)
         else Flash_full (intelHex data)] @
        map (\<lambda>p. Progress (Some p)) ps @ [Progress None])"
proof -
  have run_partial:
    "flash example_host example_dataSource \<lparr>partial = True\<rparr> (fresh_instance example_host) =
       (Inr (), example_flashed)"
    by (simp add: flash_defs example_defs example_flashed_def)
  have run_full:
    "flash example_host example_dataSource \<lparr>partial = False\<rparr> (fresh_instance example_host) =
       (Inr (), example_full_flashed)"
    by (simp add: flash_defs example_defs example_full_flashed_def)
  show ?thesis
    by (rule conjI [OF run_partial
          conjI [OF flash_success_sequence [OF run_partial]
            conjI [OF run_full flash_success_sequence [OF run_full]]]])
qed

text \<open>
  The converse: when the five calls succeed, \<^verbatim>\<open>flash\<close> returns, with exactly that trace.
  So a full flash whose driver call resolves does return, the full-flash call made.
\<close>

lemma flash_returns:
  assumes "disconnectDapAsync h (connection c) = (Inr (), d1)"
    and "connectDapAsync h d1 = (Inr (), d2)"
    and "dapwrapper_boardId h d2 = Inr raw"
    and "BoardId_parse h raw = Inr boardId"
    and "dataSource boardId = Inr data"
    and "(if partial opts then flashAsync h (bytes data) (intelHex data) d2
          else fullFlashAsync h (intelHex data) d2) = (Inr (), ps, d3)"
  shows "flash h dataSource opts c =
           (Inr (),
            c\<lparr>connection := d3,
              trace := trace c @
                [Disconnect_dap, Connect_dap, Parse_board_id raw, Data_source boardId,
                 if partial opts then Flash_partial (bytes data) (intelHex data)
                 else Flash_full (intelHex data)] @
                map (\<lambda>p. Progress (Some p)) ps @ [Progress None]\<rparr>)"
  using assms by (simp add: flash_defs split: if_splits)

text \<open>
  A call of \<^verbatim>\<open>flash\<close> that throws has not made the terminal progress call: among the
  entries it added to the trace there is no \<open>Progress None\<close>.
\<close>

lemma flash_error_aborts:
  assumes "fst (flash h dataSource opts c) = Inl e"
  shows "Progress None \<notin> set (drop (length (trace c)) (trace (snd (flash h dataSource opts c))))"
  using assms
  by (auto simp: flash_defs split: prod.splits sum.splits if_splits)

text \<open>
  Claim C2. Every error raised during \<^verbatim>\<open>flash\<close> is passed through the error classifier
  before it reaches the caller. \<^verbatim>\<open>flash\<close> does not do this: unlike \<^verbatim>\<open>connect\<close> and
  \<^verbatim>\<open>disconnect\<close>, its body is not wrapped in \<^verbatim>\<open>withEnrichedErrors\<close>. On \<open>claim_host\<close>,
  where the driver rejects with "Unable to claim interface.", \<^verbatim>\<open>flash\<close> throws that
  error as it is, with no \<^verbatim>\<open>type\<close>, and \<^verbatim>\<open>connect\<close> throws the classified one.
\<close>

theorem flash_error_not_classified:
  "fst (flash claim_host example_dataSource \<lparr>partial = False\<rparr> (fresh_instance claim_host)) =
     Inl (Error_object \<lparr>message = ''Unable to claim interface.'', type = None\<rparr>) \<and>
   fst (connect claim_host INTERACTIVE (fresh_instance claim_host)) =
     Inl (Error_object
       \<lparr>message = ''Cannot connect. Check no other browser tabs or windows are using the micro:bit.'',
        type = Some UNABLE_TO_CLAIM_INTERFACE\<rparr>)"
  by (simp add: flash_defs connect_defs example_defs enrichedError_defs)

text \<open>
  A full flash reads only \<^verbatim>\<open>data.intelHex\<close>: after the data source has answered, the
  rest of the method is the same for two sources that agree on the Intel HEX.
\<close>

lemma dataSource_full_cong:
  assumes "\<forall>b. map_sum id intelHex (ds1 b) = map_sum id intelHex (ds2 b)"
  shows "andThen (dataSource_call ds1 b) (\<lambda>data. andThen (connection_fullFlashAsync h (intelHex data)) k) =
         andThen (dataSource_call ds2 b) (\<lambda>data. andThen (connection_fullFlashAsync h (intelHex data)) k)"
proof
  fix s
  show "andThen (dataSource_call ds1 b) (\<lambda>data. andThen (connection_fullFlashAsync h (intelHex data)) k) s =
        andThen (dataSource_call ds2 b) (\<lambda>data. andThen (connection_fullFlashAsync h (intelHex data)) k) s"
    using spec [OF assms, of b]
    by (cases "ds1 b"; cases "ds2 b") (simp_all add: andThen_def dataSource_call_def)
qed

text \<open>
  Claim C9. A call of \<^verbatim>\<open>flash\<close> with \<open>partial\<close> false never reads the raw bytes of the
  payload: for two data sources that throw the same errors and whose payloads have the
  same Intel HEX, whatever their bytes, the call returns or throws the same value and
  leaves the same instance, hence the same driver calls and progress calls in the trace.
\<close>

theorem flash_full_ignores_bytes:
  assumes "\<forall>b. map_sum id intelHex (ds1 b) = map_sum id intelHex (ds2 b)"
    and "\<not> partial opts"
  shows "flash h ds1 opts c = flash h ds2 opts c"
  using assms(2) unfolding flash_def by (simp add: dataSource_full_cong [OF assms(1)])

text \<open>
  The theorem at two sources that differ in the bytes alone.
\<close>

theorem flash_full_ignores_bytes_witness:
  "\<not> partial \<lparr>partial = False\<rparr> \<and>
   example_dataSource ''9901'' \<noteq> other_dataSource ''9901'' \<and>
   flash example_host example_dataSource \<lparr>partial = False\<rparr> (fresh_instance example_host) =
   flash example_host other_dataSource \<lparr>partial = False\<rparr> (fresh_instance example_host)"
proof -
  have "\<forall>b. map_sum id intelHex (example_dataSource b) = map_sum id intelHex (other_dataSource b)"
    by (simp add: example_dataSource_def other_dataSource_def)
  then show ?thesis
    using flash_full_ignores_bytes
      [of example_dataSource other_dataSource "\<lparr>partial = False\<rparr>" example_host
          "fresh_instance example_host"]
    by (simp add: example_dataSource_def other_dataSource_def)
qed

text \<open>
  Claim C10. Every call of \<^verbatim>\<open>flash\<close>, whether it returns or throws and wherever it
  throws, leaves the \<^verbatim>\<open>status\<close> field as it was and emits no status event, although it
  closes and reopens the debug session. (The collaborators act on the driver state and
  return values; none of them is given the instance.)
\<close>

theorem flash_keeps_status:
  "status (snd (flash h dataSource opts c)) = status c \<and>
   status_events (trace (snd (flash h dataSource opts c))) = status_events (trace c)"
  by (simp add: flash_defs status_events_append status_events_driver_progress
      split: prod.splits sum.splits)


section \<open>Connection state machine\<close>

text \<open>
  Claim C3, as the specification has it: every call of \<^verbatim>\<open>disconnect()\<close>, also one whose
  session teardown raises, sets the status to \<^verbatim>\<open>NOT_CONNECTED\<close>. This fails on
  \<open>teardown_fails_host\<close>: the instance is connected, the teardown rejects,
  \<^verbatim>\<open>disconnect\<close> throws the classified error, and the status is still \<^verbatim>\<open>CONNECTED\<close>,
  because \<^verbatim>\<open>setStatus\<close> comes after the \<^verbatim>\<open>await\<close> inside the same \<^verbatim>\<open>try\<close>.
\<close>

theorem disconnect_teardown_error_counterexample:
  "status (connected_instance teardown_fails_host) = CONNECTED \<and>
   fst (disconnect teardown_fails_host (connected_instance teardown_fails_host)) =
     Inl (Error_object \<lparr>message = ''A transfer error has occurred.'', type = Some UNKNOWN\<rparr>) \<and>
   status (snd (disconnect teardown_fails_host (connected_instance teardown_fails_host))) \<noteq>
     NOT_CONNECTED"
  by (simp add: connect_defs example_defs enrichedError_defs)

text \<open>
  Claim C3, amended. For every call of \<^verbatim>\<open>disconnect()\<close> on an instance whose status is
  not \<^verbatim>\<open>NOT_SUPPORTED\<close>: when the session teardown succeeds, the call returns, the status
  is \<^verbatim>\<open>NOT_CONNECTED\<close> and one status event carrying it has been emitted; when the
  teardown raises, the call throws that error passed through \<^verbatim>\<open>enrichedError\<close>, the
  status is what it was and no status event has been emitted.
\<close>

theorem disconnect_outcome:
  assumes "disconnectDapAsync h (connection c) = (r, d)" and "status c \<noteq> NOT_SUPPORTED"
  shows "fst (disconnect h c) =
           (case r of Inl e \<Rightarrow> Inl (Error_object (enrichedError e)) | Inr u \<Rightarrow> Inr ()) \<and>
         status (snd (disconnect h c)) = (case r of Inl e \<Rightarrow> status c | Inr u \<Rightarrow> NOT_CONNECTED) \<and>
         status_events (trace (snd (disconnect h c))) =
           status_events (trace c) @ (case r of Inl e \<Rightarrow> [] | Inr u \<Rightarrow> [NOT_CONNECTED])"
  using assms(1)
  by (simp add: connect_defs status_events_append split: sum.splits)

text \<open>
  The theorem at a connected instance, once with a teardown that raises and once with
  one that succeeds.
\<close>

theorem disconnect_outcome_witness:
  "status (connected_instance teardown_fails_host) \<noteq> NOT_SUPPORTED \<and>
   fst (disconnect teardown_fails_host (connected_instance teardown_fails_host)) =
     Inl (Error_object (enrichedError teardown_error)) \<and>
   status (snd (disconnect teardown_fails_host (connected_instance teardown_fails_host))) = CONNECTED \<and>
   status (connected_instance example_host) \<noteq> NOT_SUPPORTED \<and>
   fst (disconnect example_host (connected_instance example_host)) = Inr () \<and>
   status (snd (disconnect example_host (connected_instance example_host))) = NOT_CONNECTED"
proof -
  have s1: "status (connected_instance teardown_fails_host) = CONNECTED"
    and s2: "status (connected_instance example_host) = CONNECTED"
    by (simp_all add: connect_defs example_defs)
  have t1: "disconnectDapAsync teardown_fails_host (connection (connected_instance teardown_fails_host)) =
            (Inl teardown_error, True)"
    and t2: "disconnectDapAsync example_host (connection (connected_instance example_host)) =
            (Inr (), False)"
    by (simp_all add: connect_defs example_defs)
  show ?thesis
    using disconnect_outcome [OF t1] disconnect_outcome [OF t2] s1 s2 by simp
qed

text \<open>
  Without \<^verbatim>\<open>navigator.usb\<close>, \<^verbatim>\<open>initialize\<close> returns at once, and \<^verbatim>\<open>connect\<close> and the
  attach handler leave the status \<^verbatim>\<open>NOT_SUPPORTED\<close>.
\<close>

lemma initialize_unsupported: "\<not> usb h \<Longrightarrow> initialize h c = (Inr (), c)"
  by (simp add: initialize_def getPairedDevice_def andThen_def)

lemma connect_keeps_status_without_usb: "\<not> usb h \<Longrightarrow> status (snd (connect h mode c)) = status c"
  by (simp add: connect_defs)

lemma handleConnect_NOT_SUPPORTED: "status c = NOT_SUPPORTED \<Longrightarrow> handleConnect h ev c = c"
  by (simp add: handleConnect_def)

text \<open>
  Claim C4. \<^verbatim>\<open>NOT_SUPPORTED\<close> is a sink: an instance constructed without the host's USB
  capability has that status and keeps it through any sequence of operations.
  \<^verbatim>\<open>disconnect\<close> breaks this. It has no \<^verbatim>\<open>assertSupported\<close>, which \<^verbatim>\<open>connect\<close> has, and
  sets \<^verbatim>\<open>NOT_CONNECTED\<close> as soon as the driver's teardown resolves: on \<open>no_usb_host\<close> the
  fresh instance is \<^verbatim>\<open>NOT_SUPPORTED\<close>, and after \<^verbatim>\<open>disconnect()\<close> it is
  \<^verbatim>\<open>NOT_CONNECTED\<close>, with a status event emitted.
\<close>

theorem disconnect_leaves_NOT_SUPPORTED:
  "status (fresh_instance no_usb_host) = NOT_SUPPORTED \<and>
   disconnect no_usb_host (fresh_instance no_usb_host) =
     (Inr (), (fresh_instance no_usb_host)
        \<lparr>status := NOT_CONNECTED,
         trace := [Disconnect_dap, Emit (EVENT_STATUS NOT_CONNECTED)]\<rparr>)"
  by (simp add: connect_defs example_defs)

text \<open>
  Claim C5, as the specification has it: \<^verbatim>\<open>connect(mode)\<close> without the host's USB
  capability fails with an error classified as "not supported". The classifier has no
  such kind: \<^verbatim>\<open>ConnectionErrorType\<close> has the two members
  \<^verbatim>\<open>UNABLE_TO_CLAIM_INTERFACE\<close> and \<^verbatim>\<open>UNKNOWN\<close>, and the error \<^verbatim>\<open>assertSupported\<close>
  throws is classified \<^verbatim>\<open>UNKNOWN\<close>.
\<close>

theorem connect_unsupported_counterexample:
  "connect no_usb_host INTERACTIVE (fresh_instance no_usb_host) =
     (Inl (Error_object
        \<lparr>message = ''Unsupported. Check connection status first.'', type = Some UNKNOWN\<rparr>),
      fresh_instance no_usb_host)"
  by (simp add: connect_defs example_defs enrichedError_defs)

text \<open>
  Claim C5, amended. For either connection mode, \<^verbatim>\<open>connect(mode)\<close> without the host's
  USB capability fails with an error of type \<^verbatim>\<open>UNKNOWN\<close> whose message is
  "Unsupported. Check connection status first."; it does not succeed, it makes no
  driver call, and it leaves the instance, its status included, as it was.
\<close>

theorem connect_unsupported:
  assumes "\<not> usb h"
  shows "connect h mode c =
     (Inl (Error_object
        \<lparr>message = ''Unsupported. Check connection status first.'', type = Some UNKNOWN\<rparr>), c)"
  using assms by (simp add: connect_defs enrichedError_defs)

text \<open>The theorem at a non-interactive connect on \<open>no_usb_host\<close>.\<close>

theorem connect_unsupported_witness:
  "\<not> usb no_usb_host \<and>
   fst (connect no_usb_host NON_INTERACTIVE (fresh_instance no_usb_host)) =
     Inl (Error_object
       \<lparr>message = ''Unsupported. Check connection status first.'', type = Some UNKNOWN\<rparr>) \<and>
   status (snd (connect no_usb_host NON_INTERACTIVE (fresh_instance no_usb_host))) = NOT_SUPPORTED"
proof -
  have u: "\<not> usb no_usb_host"
    by (simp add: example_defs)
  show ?thesis
    using u connect_unsupported [OF u, of NON_INTERACTIVE "fresh_instance no_usb_host"]
    by (simp add: example_defs)
qed

text \<open>
  The attach handler, for a matching device while the status is
  \<^verbatim>\<open>NO_AUTHORIZED_DEVICE\<close> and with \<^verbatim>\<open>autoConnect\<close> set, on a host whose driver rejects
  the connect: the status event, the driver call, and one event for the failure, which
  is a \<^verbatim>\<open>serial_error\<close> event. Nothing is thrown: the handler returns the instance.
\<close>

lemma handleConnect_reports_serial_error:
  assumes "matchesDeviceFilter (options c) (device ev)" and "status c = NO_AUTHORIZED_DEVICE"
    and "autoConnect (options c)" and "usb h" and "connectDapAsync h (connection c) = (Inl e, d)"
  shows "handleConnect h ev c =
           c\<lparr>status := NOT_CONNECTED, connection := d,
             trace := trace c @
               [Emit (EVENT_STATUS NOT_CONNECTED), Connect_dap,
                Emit (EVENT_SERIAL_ERROR (Error_object (enrichedError e)))]\<rparr>"
  using assms by (simp add: handleConnect_def catch_def emit_def connect_defs)

text \<open>
  Claim C8. When a matching device is attached while the status is
  \<^verbatim>\<open>NO_AUTHORIZED_DEVICE\<close>, the status becomes \<^verbatim>\<open>NOT_CONNECTED\<close>, and with \<^verbatim>\<open>autoConnect\<close> a
  background connect is tried whose failure is reported on the autoconnect-failure
  channel and on no other. \<^verbatim>\<open>handleConnect\<close> reports it on another channel: on
  \<open>claim_host\<close> it emits \<^verbatim>\<open>EVENT_SERIAL_ERROR\<close>, where \<^verbatim>\<open>initialize\<close>, for the same
  failure of the same background connect, emits \<^verbatim>\<open>EVENT_AUTOCONNECT_ERROR\<close>.
\<close>

theorem handleConnect_failure_channel:
  "handleConnect claim_host \<lparr>device = example_device\<rparr> (fresh_instance claim_host) =
     (fresh_instance claim_host)
       \<lparr>status := NOT_CONNECTED,
        trace := [Emit (EVENT_STATUS NOT_CONNECTED), Connect_dap,
                  Emit (EVENT_SERIAL_ERROR (Error_object (enrichedError claim_error)))]\<rparr> \<and>
   initialize claim_host (fresh_instance claim_host) =
     (Inr (), (fresh_instance claim_host)
       \<lparr>status := NOT_CONNECTED,
        trace := [Get_devices, Emit (EVENT_STATUS NOT_CONNECTED), Connect_dap,
                  Emit (EVENT_AUTOCONNECT_ERROR (Error_object (enrichedError claim_error)))]\<rparr>)"
  by (simp add: handleConnect_def initialize_def getPairedDevice_def matchesDeviceFilter_def
      catch_def emit_def connect_defs example_defs)

section \<open>Error classifier\<close>

text \<open>
  The two rules of \<^verbatim>\<open>enrichedError\<close>, for a message that is no member name of
  \<^verbatim>\<open>Object.prototype\<close>.
\<close>

lemma enrichedError_claim:
  "message e = ''Unable to claim interface.'' \<Longrightarrow>
   enrichedError (Error_object e) =
     \<lparr>message = ''Cannot connect. Check no other browser tabs or windows are using the micro:bit.'',
      type = Some UNABLE_TO_CLAIM_INTERFACE\<rparr>"
  by (simp add: enrichedError_defs)

lemma enrichedError_unmatched:
  "message e \<noteq> ''Unable to claim interface.'' \<Longrightarrow> message e \<notin> set Object_prototype_names \<Longrightarrow>
   enrichedError (Error_object e) = e\<lparr>type := Some UNKNOWN\<rparr>"
  by (simp add: enrichedError_def specialCases_def)

text \<open>
  Claim C7. The classifier maps the message "Unable to claim interface." to
  \<^verbatim>\<open>UNABLE_TO_CLAIM_INTERFACE\<close> with the message about other tabs, and every other
  message to \<^verbatim>\<open>UNKNOWN\<close> with the message kept; every classified error has one kind.
  The second half fails for a message that names a member of \<^verbatim>\<open>Object.prototype\<close>:
  the read \<^verbatim>\<open>specialCases["constructor"]\<close> gives the inherited \<^verbatim>\<open>Object\<close> function,
  which is truthy, so the first branch runs with \<^verbatim>\<open>special.message\<close> and
  \<^verbatim>\<open>special.type\<close> both \<^verbatim>\<open>undefined\<close>. The error returned has an empty message and no
  type.
\<close>

theorem enrichedError_inherited_name:
  "enrichedError (Error_object \<lparr>message = ''constructor'', type = None\<rparr>) =
     \<lparr>message = [], type = None\<rparr>"
  by (simp add: enrichedError_defs)

end
